theory Spec2Isabelle
  imports Main "HOL-Library.AList" "HOL-Library.Sublist"
begin

section \<open>Values, errors and results\<close>

text \<open>
  The program is a Python script over the pandas, riotwatcher and lol-id-tools libraries.
  Values that travel through it are JSON values: the match records returned by the
  provider and the cells of the data frames built from them. \<open>JNull\<close> stands for both
  Python's \<open>None\<close> and the missing-value marker NaN that pandas writes into a cell.
  A dict is an association list in insertion order; a Python dict has no repeated key.
\<close>

datatype json =
    JNull
  | JBool bool
  | JNum int
  | JStr string
  | JList "json list"
  | JDict "(string \<times> json) list"

text \<open>A column label of a data frame is a string or, for frames built from lists, a position.\<close>

datatype label = S string | I nat

text \<open>
  Every raise and every \<open>sys.exit\<close> of the source is a value. \<open>SystemExit\<close> carries the
  exit status and the lines printed before the exit; \<open>ApiError\<close> carries the HTTP status.
\<close>

datatype error =
    KeyError "label list"
  | AttributeError string
  | NotImplementedError
  | ValueError
  | IndexError
  | TypeError
  | ApiError nat
  | UnboundLocalError string
  | SystemExit nat "string list"

section \<open>Command-line checks\<close>

text \<open>
  Strings are lists of 8-bit characters read as code points 0..255. \<open>str_upper\<close> is
  \<open>str.upper\<close> on that range: it maps a..z and the lower-case letters of Latin-1 to their
  upper-case forms. The three characters of the range whose upper-case form lies outside
  it (code points 181, 223 and 255) are left as they are; no region code contains them or
  their upper-case forms. \<open>str_strip\<close> is \<open>str.strip\<close> with no argument: it removes the
  leading and trailing characters for which \<open>str.isspace\<close> holds.
\<close>

definition upper_char :: "char \<Rightarrow> char" where
  "upper_char c =
     (let n = (of_char c :: nat)
      in if (97 \<le> n \<and> n \<le> 122) \<or> (224 \<le> n \<and> n \<le> 254 \<and> n \<noteq> 247)
         then char_of (n - 32) else c)"

definition str_upper :: "string \<Rightarrow> string" where
  "str_upper s = map upper_char s"

definition isspace :: "char \<Rightarrow> bool" where
  "isspace c =
     (let n = (of_char c :: nat)
      in (9 \<le> n \<and> n \<le> 13) \<or> (28 \<le> n \<and> n \<le> 32) \<or> n = 133 \<or> n = 160)"

definition str_strip :: "string \<Rightarrow> string" where
  "str_strip s = rev (dropWhile isspace (rev (dropWhile isspace s)))"

fun join :: "string \<Rightarrow> string list \<Rightarrow> string" where
  "join sep [] = []"
| "join sep [x] = x"
| "join sep (x # y # ys) = x @ sep @ join sep (y # ys)"

text \<open>
  The set literal of \<open>get_region\<close>, in the order it is written. Python iterates a set in an
  order of its own, so the order of the names in the printed line is not fixed by the
  source; the model prints them in the written order.
\<close>

definition valid_regions :: "string list" where
  "valid_regions =
     [''BR1'', ''EUN1'', ''EUW1'', ''JP1'', ''KR'', ''LA1'', ''LA2'', ''NA1'',
      ''OC1'', ''PH2'', ''RU'', ''SG2'', ''TH2'', ''TR1'', ''TW2'', ''VN2'']"

definition get_region :: "string \<Rightarrow> error + string" where
  "get_region region =
     (if str_strip (str_upper region) \<in> set valid_regions then Inr region
      else Inl (SystemExit 2
        [[CHR 0x22] @ region @ [CHR 0x22] @ '' does not exist. Enter a valid region and try again.'',
         ''Valid regions:  '' @ join '', '' valid_regions]))"

text \<open>
  The fetcher (\<open>LolWatcher\<close>) is an external collaborator: \<open>by_name\<close> answers a region and a
  player name with the player record or raises, \<open>by_id\<close> answers a region and a match
  reference with the raw match record or raises.
\<close>

record watcher =
  by_name :: "string \<Rightarrow> string \<Rightarrow> error + json"
  by_id :: "string \<Rightarrow> string \<Rightarrow> error + json"

text \<open>
  \<open>get_summoner\<close>: the \<open>except\<close> clause catches \<open>ApiError\<close> only. For status 404 it prints
  and exits; for any other status the handler ends, and \<open>return summoner\<close> reads a local
  that was never assigned. Any other exception passes through.
\<close>

definition get_summoner :: "watcher \<Rightarrow> string \<Rightarrow> string \<Rightarrow> error + json" where
  "get_summoner w region summoner_name =
     (case by_name w region summoner_name of
        Inr summoner \<Rightarrow> Inr summoner
      | Inl (ApiError status_code) \<Rightarrow>
          (if status_code = 404
           then Inl (SystemExit 2
             [''Summoner '' @ [CHR 0x22] @ summoner_name @ [CHR 0x22] @ '' was not found. Try again.''])
           else Inl (UnboundLocalError ''summoner''))
      | Inl e \<Rightarrow> Inl e)"

section \<open>Results and sequencing\<close>

text \<open>A statement that may raise, followed by the rest of the function body.\<close>

definition bind :: "error + 'a \<Rightarrow> ('a \<Rightarrow> error + 'b) \<Rightarrow> error + 'b" where
  "bind r f = (case r of Inl e \<Rightarrow> Inl e | Inr x \<Rightarrow> f x)"

section \<open>The pandas operations the pipeline uses\<close>

text \<open>
  A data frame is held column by column: its number of rows and, in column order, each
  label with its cells. A row has a column exactly when that column holds a cell at the
  row's position. The row index is always the range \<open>0..<nrows\<close> (every frame of the
  pipeline is built by \<open>json_normalize\<close> or with \<open>ignore_index=True\<close>).

  pandas is not part of the repository; the operations below follow its behaviour in the
  releases the script runs on (1.4 to 2.x, where \<open>json_normalize\<close> takes the simple path
  for a call without further arguments and \<open>applymap\<close> still exists). Labels within one
  frame are distinct, as they are in every frame \<open>json_normalize\<close> and \<open>concat\<close> build.
\<close>

record frame =
  nrows :: nat
  cols :: "(label \<times> json list) list"

definition empty_frame :: frame where
  "empty_frame = \<lparr>nrows = 0, cols = []\<rparr>"

definition labels :: "frame \<Rightarrow> label list" where
  "labels d = map fst (cols d)"

text \<open>\<open>data[c]\<close>: the cells of column \<open>c\<close>, or \<open>KeyError\<close>.\<close>

definition getitem :: "frame \<Rightarrow> label \<Rightarrow> error + json list" where
  "getitem d c = (case map_of (cols d) c of None \<Rightarrow> Inl (KeyError [c]) | Some cells \<Rightarrow> Inr cells)"

subsection \<open>\<open>json_normalize\<close>\<close>

fun is_dict :: "json \<Rightarrow> bool" where
  "is_dict (JDict d) = True"
| "is_dict v = False"

text \<open>
  The key of a nested entry: \<open>f"{key_string}{separator}{key}"\<close>, with the separator
  \<open>.\<close> removed again when \<open>key_string\<close> is empty.
\<close>

definition new_key :: "string \<Rightarrow> string \<Rightarrow> string" where
  "new_key key_string key = (if key_string = [] then key else key_string @ ''.'' @ key)"

text \<open>
  \<open>_normalise_json\<close>: walks a value; a dict contributes its entries under dotted keys,
  anything else is stored under the key reached. Storing is Python's
  \<open>normalized_dict[key_string] = data\<close>: a known key keeps its place and takes the new
  value, a new key goes to the end.
\<close>

function normalise_json :: "json \<Rightarrow> string \<Rightarrow> (string \<times> json) list \<Rightarrow> (string \<times> json) list"
  and normalise_items :: "(string \<times> json) list \<Rightarrow> string \<Rightarrow> (string \<times> json) list \<Rightarrow> (string \<times> json) list"
where
  "normalise_json (JDict kvs) key_string normalized_dict = normalise_items kvs key_string normalized_dict"
| "normalise_json JNull key_string normalized_dict = AList.update key_string JNull normalized_dict"
| "normalise_json (JBool b) key_string normalized_dict = AList.update key_string (JBool b) normalized_dict"
| "normalise_json (JNum n) key_string normalized_dict = AList.update key_string (JNum n) normalized_dict"
| "normalise_json (JStr s) key_string normalized_dict = AList.update key_string (JStr s) normalized_dict"
| "normalise_json (JList l) key_string normalized_dict = AList.update key_string (JList l) normalized_dict"
| "normalise_items [] key_string normalized_dict = normalized_dict"
| "normalise_items ((key, v) # rest) key_string normalized_dict =
     normalise_items rest key_string (normalise_json v (new_key key_string key) normalized_dict)"
  by pat_completeness auto
termination
  by (relation "measure (\<lambda>x. case x of
        Inl (v, _, _) \<Rightarrow> size v
      | Inr (kvs, _, _) \<Rightarrow> size_list (size_prod (\<lambda>_. 0) size) kvs)") auto

text \<open>\<open>{**a, **b}\<close>: the entries of \<open>a\<close>, updated in turn with the entries of \<open>b\<close>.\<close>

definition dict_merge :: "(string \<times> json) list \<Rightarrow> (string \<times> json) list \<Rightarrow> (string \<times> json) list" where
  "dict_merge a b = fold (\<lambda>(k, v) acc. AList.update k v acc) b a"

text \<open>
  \<open>_normalise_json_ordered\<close>: the entries whose value is not a dict come first, as they
  are; the flattened entries of the nested dicts follow.
\<close>

definition normalise_json_ordered :: "(string \<times> json) list \<Rightarrow> (string \<times> json) list" where
  "normalise_json_ordered data =
     (let top_dict = filter (\<lambda>(k, v). \<not> is_dict v) data;
          nested_dict = normalise_json (JDict (filter (\<lambda>(k, v). is_dict v) data)) [] []
      in dict_merge top_dict nested_dict)"

text \<open>
  \<open>_simple_json_normalize\<close>: a dict is flattened, a list is normalised element by
  element, and anything else (a number, a string, \<open>None\<close>, NaN) gives the empty dict.
\<close>

fun simple_json_normalize :: "json \<Rightarrow> json" where
  "simple_json_normalize (JDict d) = JDict (normalise_json_ordered d)"
| "simple_json_normalize (JList l) = JList (map simple_json_normalize l)"
| "simple_json_normalize v = JDict []"

text \<open>
  \<open>DataFrame(rows)\<close> for the rows that \<open>_simple_json_normalize\<close> returns (each a list or a
  dict); the first row decides how all of them are read.

  When the first row is a list, every row is read as a sequence (\<open>to_object_array\<close>):
  the frame has one column per position up to the longest row, labelled by position, and
  a shorter row is filled up with \<open>None\<close>. Read as a sequence, a dict gives its keys.
\<close>

fun row_items :: "json \<Rightarrow> json list" where
  "row_items (JList l) = l"
| "row_items (JDict d) = map (\<lambda>(k, v). JStr k) d"
| "row_items v = []"

definition nth_or_null :: "json list \<Rightarrow> nat \<Rightarrow> json" where
  "nth_or_null xs j = (if j < length xs then xs ! j else JNull)"

definition list_to_arrays :: "json list \<Rightarrow> frame" where
  "list_to_arrays data =
     (let rows = map row_items data;
          k = fold (\<lambda>row k. if length row > k then length row else k) rows 0
      in \<lparr>nrows = length data,
          cols = map (\<lambda>j. (I j, map (\<lambda>row. nth_or_null row j) rows)) [0..<k]\<rparr>)"

text \<open>
  When the first row is a dict, every row must be one (\<open>x.keys()\<close> is called on each, and
  a list has no such attribute): the columns are the keys in order of first appearance,
  and a row without a key holds NaN there (\<open>row.get(col, nan)\<close>).
\<close>

fun unique :: "'a list \<Rightarrow> 'a list" where
  "unique [] = []"
| "unique (x # xs) = x # filter (\<lambda>y. y \<noteq> x) (unique xs)"

fun dict_items :: "json \<Rightarrow> (string \<times> json) list" where
  "dict_items (JDict d) = d"
| "dict_items v = []"

definition dict_get :: "(string \<times> json) list \<Rightarrow> string \<Rightarrow> json" where
  "dict_get d k = (case map_of d k of None \<Rightarrow> JNull | Some v \<Rightarrow> v)"

definition list_of_dict_to_arrays :: "json list \<Rightarrow> error + frame" where
  "list_of_dict_to_arrays data =
     (if \<not> list_all is_dict data then Inl (AttributeError ''keys'')
      else
        let dicts = map dict_items data;
            columns = unique (concat (map (map fst) dicts))
        in Inr \<lparr>nrows = length data,
                cols = map (\<lambda>c. (S c, map (\<lambda>d. dict_get d c) dicts)) columns\<rparr>)"

definition DataFrame :: "json list \<Rightarrow> error + frame" where
  "DataFrame data =
     (case data of
        [] \<Rightarrow> Inr empty_frame
      | JList l # rest \<Rightarrow> Inr (list_to_arrays data)
      | first # rest \<Rightarrow> list_of_dict_to_arrays data)"

text \<open>
  \<open>pd.json_normalize(data)\<close> with no further argument: a dict is one record, any other
  iterable but a string (a list, a column of a frame) is a list of records, and anything
  else is refused. A column of a frame is passed as the list of its cells.
\<close>

definition json_normalize :: "json \<Rightarrow> error + frame" where
  "json_normalize data =
     (case data of
        JDict d \<Rightarrow> DataFrame (map simple_json_normalize [JDict d])
      | JList l \<Rightarrow> DataFrame (map simple_json_normalize l)
      | v \<Rightarrow> Inl NotImplementedError)"

subsection \<open>Concatenation\<close>

definition column_or_nulls :: "frame \<Rightarrow> label \<Rightarrow> json list" where
  "column_or_nulls d c =
     (case map_of (cols d) c of None \<Rightarrow> replicate (nrows d) JNull | Some cells \<Rightarrow> cells)"

text \<open>
  \<open>pd.concat([a, b], ignore_index=True)\<close>: the rows of \<open>a\<close>, then those of \<open>b\<close>, renumbered.
  The columns are those of \<open>a\<close> followed by the new ones of \<open>b\<close> (outer join, unsorted); a
  frame without a column holds NaN in it. Both frames have distinct labels.
\<close>

definition concat_rows :: "frame \<Rightarrow> frame \<Rightarrow> frame" where
  "concat_rows a b =
     \<lparr>nrows = nrows a + nrows b,
      cols = map (\<lambda>c. (c, column_or_nulls a c @ column_or_nulls b c))
                 (unique (labels a @ labels b))\<rparr>"

definition pad :: "nat \<Rightarrow> json list \<Rightarrow> json list" where
  "pad n cells = cells @ replicate (n - length cells) JNull"

text \<open>
  \<open>pd.concat([a, b], axis=1, join='outer')\<close> and \<open>pd.concat(series, axis=1)\<close>: the columns
  side by side, over the union of the row positions.
\<close>

definition concat_cols :: "frame \<Rightarrow> frame \<Rightarrow> frame" where
  "concat_cols a b =
     (let n = max (nrows a) (nrows b)
      in \<lparr>nrows = n, cols = map (\<lambda>(c, cells). (c, pad n cells)) (cols a @ cols b)\<rparr>)"

definition concat_series :: "(label \<times> json list) list \<Rightarrow> frame" where
  "concat_series series =
     (let n = fold (\<lambda>(c, cells) n. max n (length cells)) series 0
      in \<lparr>nrows = n, cols = map (\<lambda>(c, cells). (c, pad n cells)) series\<rparr>)"

subsection \<open>Dropping, renaming and selecting columns\<close>

text \<open>
  \<open>data.drop(columns=names)\<close>: every name must be a column (\<open>errors='raise'\<close> is the
  default), else \<open>KeyError\<close> with the names not found.
\<close>

definition drop_columns :: "frame \<Rightarrow> label list \<Rightarrow> error + frame" where
  "drop_columns d names =
     (let missing = filter (\<lambda>c. c \<notin> set (labels d)) names
      in if missing \<noteq> [] then Inl (KeyError missing)
         else Inr (d\<lparr>cols := filter (\<lambda>(c, cells). c \<notin> set names) (cols d)\<rparr>))"


subsection \<open>Regular expressions\<close>

text \<open>
  The patterns of the modelled functions are built from literal characters, \<open>.\<close> (any
  character but a newline) and a postfix \<open>*\<close> on a single character; \<open>re_compile\<close> reads
  exactly this fragment. \<open>re_search\<close> is \<open>re.search\<close>: the pattern may match at any
  position of the string and need not reach its end.
\<close>

datatype atom = Lit char | AnyChar

datatype item = Once atom | Many atom

fun atom_of :: "char \<Rightarrow> atom" where
  "atom_of c = (if c = CHR ''.'' then AnyChar else Lit c)"

fun re_compile :: "string \<Rightarrow> item list" where
  "re_compile [] = []"
| "re_compile [c] = [Once (atom_of c)]"
| "re_compile (c # d # rest) =
     (if d = CHR ''*'' then Many (atom_of c) # re_compile rest
      else Once (atom_of c) # re_compile (d # rest))"

fun atom_matches :: "atom \<Rightarrow> char \<Rightarrow> bool" where
  "atom_matches (Lit a) c = (c = a)"
| "atom_matches AnyChar c = (c \<noteq> CHR 0x0A)"

function matchhere :: "item list \<Rightarrow> string \<Rightarrow> bool" where
  "matchhere [] s = True"
| "matchhere (Once a # rest) [] = False"
| "matchhere (Once a # rest) (c # cs) = (atom_matches a c \<and> matchhere rest cs)"
| "matchhere (Many a # rest) [] = matchhere rest []"
| "matchhere (Many a # rest) (c # cs) =
     (matchhere rest (c # cs) \<or> (atom_matches a c \<and> matchhere (Many a # rest) cs))"
  by pat_completeness auto
termination
  by (relation "measure (\<lambda>(p, s). length p + length s)") auto

fun re_search :: "item list \<Rightarrow> string \<Rightarrow> bool" where
  "re_search p [] = matchhere p []"
| "re_search p (c # cs) = (matchhere p (c # cs) \<or> re_search p cs)"

text \<open>\<open>ensure_str\<close> of a label: a string as it is, a position in decimal.\<close>

fun digits :: "nat \<Rightarrow> string" where
  "digits n = (if n < 10 then [char_of (48 + n)] else digits (n div 10) @ [char_of (48 + n mod 10)])"

fun ensure_str :: "label \<Rightarrow> string" where
  "ensure_str (S s) = s"
| "ensure_str (I n) = digits n"

text \<open>\<open>data.filter(regex=regex)\<close>: the columns whose label the pattern is found in.\<close>

definition filter_regex :: "frame \<Rightarrow> string \<Rightarrow> frame" where
  "filter_regex d regex =
     d\<lparr>cols := filter (\<lambda>(c, cells). re_search (re_compile regex) (ensure_str c)) (cols d)\<rparr>"

section \<open>The pipeline\<close>

subsection \<open>Reading a participant out of a match record\<close>

text \<open>\<open>v[key]\<close> for a string key, \<open>v.index(x)\<close> for a string \<open>x\<close>, and \<open>v[index]\<close>.\<close>

fun subscript :: "json \<Rightarrow> string \<Rightarrow> error + json" where
  "subscript (JDict d) key = (case map_of d key of None \<Rightarrow> Inl (KeyError [S key]) | Some v \<Rightarrow> Inr v)"
| "subscript v key = Inl TypeError"

fun index_of :: "json list \<Rightarrow> json \<Rightarrow> nat option" where
  "index_of [] x = None"
| "index_of (y # ys) x = (if y = x then Some 0 else map_option Suc (index_of ys x))"

fun find_sub :: "string \<Rightarrow> string \<Rightarrow> nat option" where
  "find_sub [] x = (if x = [] then Some 0 else None)"
| "find_sub (c # cs) x = (if take (length x) (c # cs) = x then Some 0 else map_option Suc (find_sub cs x))"

fun index_method :: "json \<Rightarrow> string \<Rightarrow> error + nat" where
  "index_method (JList l) x = (case index_of l (JStr x) of None \<Rightarrow> Inl ValueError | Some i \<Rightarrow> Inr i)"
| "index_method (JStr s) x = (case find_sub s x of None \<Rightarrow> Inl ValueError | Some i \<Rightarrow> Inr i)"
| "index_method v x = Inl (AttributeError ''index'')"

fun subscript_int :: "json \<Rightarrow> nat \<Rightarrow> error + json" where
  "subscript_int (JList l) i = (if i < length l then Inr (l ! i) else Inl IndexError)"
| "subscript_int (JStr s) i = (if i < length s then Inr (JStr [s ! i]) else Inl IndexError)"
| "subscript_int (JDict d) i = Inl (KeyError [I i])"
| "subscript_int v i = Inl TypeError"

definition get_match_from_id :: "watcher \<Rightarrow> string \<Rightarrow> string \<Rightarrow> error + json" where
  "get_match_from_id w region match_id = by_id w region match_id"

definition get_player_index :: "string \<Rightarrow> json \<Rightarrow> error + nat" where
  "get_player_index puuid match =
     bind (subscript match ''metadata'') (\<lambda>metadata.
     bind (subscript metadata ''participants'') (\<lambda>participants.
     index_method participants puuid))"

definition get_player_from_index :: "json \<Rightarrow> nat \<Rightarrow> error + json" where
  "get_player_from_index match index =
     bind (subscript match ''info'') (\<lambda>info.
     bind (subscript info ''participants'') (\<lambda>participants.
     subscript_int participants index))"

subsection \<open>Unpacking the runes\<close>

text \<open>
  \<open>pd.json_normalize(pd.json_normalize(perks[i])['selections'])\<close> and
  \<open>pd.json_normalize(frame[i])['perk']\<close>, the two expressions \<open>get_runes\<close> repeats.
\<close>

definition selections_of :: "frame \<Rightarrow> nat \<Rightarrow> error + frame" where
  "selections_of perks i =
     bind (getitem perks (I i)) (\<lambda>style.
     bind (json_normalize (JList style)) (\<lambda>style_frame.
     bind (getitem style_frame (S ''selections'')) (\<lambda>selections.
     json_normalize (JList selections))))"

definition perk_of :: "frame \<Rightarrow> nat \<Rightarrow> error + json list" where
  "perk_of selections i =
     bind (getitem selections (I i)) (\<lambda>selection.
     bind (json_normalize (JList selection)) (\<lambda>selection_frame.
     getitem selection_frame (S ''perk'')))"

definition get_runes :: "frame \<Rightarrow> error + frame" where
  "get_runes data =
     bind (getitem data (S ''perks.styles'')) (\<lambda>styles.
     bind (json_normalize (JList styles)) (\<lambda>perks.
     bind (selections_of perks 0) (\<lambda>primary.
     bind (perk_of primary 0) (\<lambda>keystone.
     bind (perk_of primary 1) (\<lambda>primary1.
     bind (perk_of primary 2) (\<lambda>primary2.
     bind (perk_of primary 3) (\<lambda>primary3.
     bind (selections_of perks 1) (\<lambda>secondary.
     bind (perk_of secondary 0) (\<lambda>secondary1.
     bind (perk_of secondary 1) (\<lambda>secondary2.
       let rune_list =
             [(S ''runeKeystone'', keystone), (S ''runePrimary1'', primary1),
              (S ''runePrimary2'', primary2), (S ''runePrimary3'', primary3),
              (S ''runeSecondary1'', secondary1), (S ''runeSecondary2'', secondary2)];
           runes = concat_series rune_list
       in Inr (concat_cols data runes)))))))))))"

subsection \<open>Collecting the batch\<close>

text \<open>The body of the loop of \<open>collect_data\<close>, up to the one-row frame of the participant.\<close>

definition player_data_of :: "watcher \<Rightarrow> string \<Rightarrow> string \<Rightarrow> string \<Rightarrow> error + frame" where
  "player_data_of w region puuid match_id =
     bind (get_match_from_id w region match_id) (\<lambda>match.
     bind (get_player_index puuid match) (\<lambda>player_index.
     bind (get_player_from_index match player_index) (\<lambda>player.
     json_normalize player)))"

fun collect_loop :: "watcher \<Rightarrow> string \<Rightarrow> string \<Rightarrow> frame \<Rightarrow> string list \<Rightarrow> error + frame" where
  "collect_loop w region puuid data [] = Inr data"
| "collect_loop w region puuid data (match_id # match_ids) =
     bind (player_data_of w region puuid match_id) (\<lambda>player_data.
     collect_loop w region puuid (concat_rows data player_data) match_ids)"

definition collect_data :: "watcher \<Rightarrow> string \<Rightarrow> string list \<Rightarrow> string \<Rightarrow> error + frame" where
  "collect_data w region match_ids puuid =
     bind (collect_loop w region puuid empty_frame match_ids) (\<lambda>data. get_runes data)"


subsection \<open>Normalising the fields\<close>

text \<open>
  \<open>filter_data\<close> builds a frame without the matching columns, binds it to its own local
  name and returns it; the frame it was given is not changed.
\<close>

definition filter_data :: "frame \<Rightarrow> string \<Rightarrow> error + frame" where
  "filter_data data regex = drop_columns data (labels (filter_regex data regex))"

definition deny_list :: "label list" where
  "deny_list = map S
     [''perks.styles'', ''unrealKills'', ''totalUnitsHealed'', ''summonerId'',
      ''summonerLevel'', ''summonerName'', ''role'', ''puuid'', ''profileIcon'',
      ''largestCriticalStrike'', ''lane'', ''itemsPurchased'', ''individualPosition'',
      ''goldSpent'', ''eligibleForProgression'', ''championTransform'', ''championId'']"

definition regexes :: "string list" where
  "regexes = [''.*challenge*'', ''.*Ping*'', ''.*riot*'', ''.*nexus*'', ''.*gameEnded*'']"

text \<open>
  The loop of \<open>remove_unnecessary_info\<close> calls \<open>filter_data(data, regex)\<close> as a statement:
  the frame returned is dropped, and \<open>data\<close> stays what the \<open>drop\<close> before the loop made it.
\<close>

fun filter_loop :: "frame \<Rightarrow> string list \<Rightarrow> error + frame" where
  "filter_loop data [] = Inr data"
| "filter_loop data (regex # rest) =
     bind (filter_data data regex) (\<lambda>unused. filter_loop data rest)"

definition remove_unnecessary_info :: "frame \<Rightarrow> error + frame" where
  "remove_unnecessary_info data =
     bind (drop_columns data deny_list) (\<lambda>data. filter_loop data regexes)"

subsection \<open>Decoding the shards\<close>

definition shard_translations :: "(int \<times> string) list" where
  "shard_translations =
     [(5001, ''Health''), (5002, ''Armor''), (5003, ''Magic Resist''),
      (5005, ''Attack Speed''), (5007, ''Ability Haste''), (5008, ''Adaptive Force'')]"

text \<open>
  \<open>shard_translations\<close> is the dict \<open>translations\<close> of \<open>decode_shards\<close> (renamed: the word is
  reserved here), and \<open>shard_translations_get\<close> its \<open>get\<close>: the name of a known id, \<open>None\<close> for any other hashable value
  (\<open>True\<close> and \<open>False\<close> hash and compare as 1 and 0), and \<open>TypeError\<close> for a list or a dict,
  which cannot be hashed.
\<close>

fun shard_translations_get :: "json \<Rightarrow> error + json" where
  "shard_translations_get (JNum n) = Inr (case map_of shard_translations n of None \<Rightarrow> JNull | Some name \<Rightarrow> JStr name)"
| "shard_translations_get (JBool b) =
     Inr (case map_of shard_translations (if b then 1 else 0) of None \<Rightarrow> JNull | Some name \<Rightarrow> JStr name)"
| "shard_translations_get JNull = Inr JNull"
| "shard_translations_get (JStr s) = Inr JNull"
| "shard_translations_get (JList l) = Inl TypeError"
| "shard_translations_get (JDict d) = Inl TypeError"

fun map_result :: "('a \<Rightarrow> error + 'b) \<Rightarrow> 'a list \<Rightarrow> error + 'b list" where
  "map_result f [] = Inr []"
| "map_result f (x # xs) = bind (f x) (\<lambda>y. bind (map_result f xs) (\<lambda>ys. Inr (y # ys)))"

text \<open>
  \<open>data[selected.columns] = data[selected.columns].applymap(f)\<close>: every cell of every
  selected column is replaced by its image; the other columns are left alone.
\<close>

definition applymap_columns :: "(json \<Rightarrow> error + json) \<Rightarrow> frame \<Rightarrow> frame \<Rightarrow> error + frame" where
  "applymap_columns f selected data =
     bind (map_result (\<lambda>(c, cells).
             if c \<in> set (labels selected)
             then bind (map_result f cells) (\<lambda>cells'. Inr (c, cells'))
             else Inr (c, cells)) (cols data))
          (\<lambda>cols'. Inr (data\<lparr>cols := cols'\<rparr>))"

definition decode_shards :: "frame \<Rightarrow> error + frame" where
  "decode_shards data =
     (let shards = filter_regex data ''runeShard*''
      in applymap_columns shard_translations_get shards data)"

section \<open>The provider's rune-selection tree\<close>

text \<open>
  The provider reports the runes of a participant under \<open>perks.styles\<close> as a list of style
  branches; a branch has a description, a list of selections and a style id, and a
  selection has a perk id and three variables. These types are that schema, and the
  \<open>_json\<close> functions give the JSON value in which the pipeline receives it.
\<close>

datatype selection = Selection (perk: int) (var1: int) (var2: int) (var3: int)

datatype style = Style (description: string) (selections: "selection list") (style_id: int)





section \<open>Predicates of the statements\<close>

text \<open>A column label matches one of the five removal patterns of \<open>remove_unnecessary_info\<close>.\<close>

definition matches_removal_pattern :: "label \<Rightarrow> bool" where
  "matches_removal_pattern c =
     list_ex (\<lambda>regex. re_search (re_compile regex) (ensure_str c)) regexes"

text \<open>A column label matches the pattern by which \<open>decode_shards\<close> selects its columns.\<close>

definition shard_pattern :: "label \<Rightarrow> bool" where
  "shard_pattern c = re_search (re_compile ''runeShard*'') (ensure_str c)"

text \<open>A value Python can hash, and so look up in a dict: anything but a list or a dict.\<close>

fun hashable :: "json \<Rightarrow> bool" where
  "hashable (JList l) = False"
| "hashable (JDict d) = False"
| "hashable v = True"

text \<open>
  The shard table as the specification words it, and the decoding it asks for: the name
  of an id in the table, null for anything else.
\<close>

definition spec_shard_table :: "int \<rightharpoonup> string" where
  "spec_shard_table =
     [5001 \<mapsto> ''Health'', 5002 \<mapsto> ''Armor'', 5003 \<mapsto> ''Magic Resist'',
      5005 \<mapsto> ''Attack Speed'', 5007 \<mapsto> ''Ability Haste'', 5008 \<mapsto> ''Adaptive Force'']"

fun spec_shard_name :: "json \<Rightarrow> json" where
  "spec_shard_name (JNum n) = (case spec_shard_table n of None \<Rightarrow> JNull | Some name \<Rightarrow> JStr name)"
| "spec_shard_name v = JNull"

text \<open>Every column of a frame holds one cell for every row: all rows have the same columns.\<close>

definition wf_frame :: "frame \<Rightarrow> bool" where
  "wf_frame d = (\<forall>(c, cells)\<in>set (cols d). length cells = nrows d)"







section \<open>Example inputs\<close>

text \<open>A fetcher whose every call is refused with HTTP status 429 (rate limit).\<close>

definition rate_limited :: watcher where
  "rate_limited = \<lparr>by_name = (\<lambda>region name. Inl (ApiError 429)),
                    by_id = (\<lambda>region match_id. Inl (ApiError 429))\<rparr>"

text \<open>
  A one-row frame holding every deny-listed column, the column \<open>kills\<close>, and one column
  for each of the five pattern categories.
\<close>

definition pattern_columns :: "(label \<times> json list) list" where
  "pattern_columns =
     [(S ''kills'', [JNum 7]), (S ''riotIdName'', [JStr ''Zenith'']),
      (S ''challenges.kda'', [JNum 3]), (S ''basicPings'', [JNum 2]),
      (S ''nexusKills'', [JNum 1]), (S ''gameEndedInSurrender'', [JBool False])]"

definition noisy_frame :: frame where
  "noisy_frame = \<lparr>nrows = 1, cols = map (\<lambda>c. (c, [JNum 0])) deny_list @ pattern_columns\<rparr>"

text \<open>The same frame without the deny-listed column \<open>unrealKills\<close>.\<close>

definition frame_without_unrealKills :: frame where
  "frame_without_unrealKills =
     \<lparr>nrows = 1, cols = filter (\<lambda>(c, cells). c \<noteq> S ''unrealKills'') (cols noisy_frame)\<rparr>"

text \<open>Two rows with the three shard columns, and a frame with a fourth column of a like name.\<close>

definition shard_frame :: frame where
  "shard_frame = \<lparr>nrows = 2, cols =
     [(S ''kills'', [JNum 5005, JNum 3]),
      (S ''runeShardDefense'', [JNum 5001, JNum 5002]),
      (S ''runeShardFlex'', [JNum 5008, JNum 9999]),
      (S ''runeShardOffense'', [JNum 5005, JNull])]\<rparr>"

definition extra_shard_frame :: frame where
  "extra_shard_frame = \<lparr>nrows = 1, cols =
     [(S ''runeShards'', [JNum 5001]), (S ''runeShardFlex'', [JNum 5008])]\<rparr>"













section \<open>Properties of the command-line checks\<close>

lemma valid_regions_card: "length valid_regions = 16 \<and> distinct valid_regions"
  by (simp add: valid_regions_def)

lemma get_region_accepts_iff:
  "(get_region region = Inr region) = (str_strip (str_upper region) \<in> set valid_regions)"
  by (simp add: get_region_def)

lemma get_region_na1: "get_region ''na1'' = Inr ''na1''"
  by code_simp

lemma get_region_NA1: "get_region ''NA1'' = Inr ''NA1''"
  by code_simp

lemma get_region_padded: "get_region '' euw1 '' = Inr '' euw1 ''"
  by code_simp

lemma get_region_XX9:
  "get_region ''XX9'' = Inl (SystemExit 2
     [[CHR 0x22] @ ''XX9'' @ [CHR 0x22] @ '' does not exist. Enter a valid region and try again.'',
      ''Valid regions:  BR1, EUN1, EUW1, JP1, KR, LA1, LA2, NA1, OC1, PH2, RU, SG2, TH2, TR1, TW2, VN2''])"
  by code_simp

text \<open>
  C7. \<open>get_region\<close> accepts its input, returning it as given, exactly when the input
  upper-cased and stripped of surrounding whitespace is one of the 16 region codes;
  otherwise it prints two lines, the second listing the valid codes, and exits with
  status 2 without returning anything. \<open>na1\<close> is accepted as \<open>NA1\<close> is, and \<open>XX9\<close> is
  rejected.
\<close>

theorem get_region_accepts_exactly_valid:
  "(get_region region = Inr region) = (str_strip (str_upper region) \<in> set valid_regions)
   \<and> (get_region region = Inl (SystemExit 2
          [[CHR 0x22] @ region @ [CHR 0x22] @ '' does not exist. Enter a valid region and try again.'',
           ''Valid regions:  '' @ join '', '' valid_regions]))
       = (str_strip (str_upper region) \<notin> set valid_regions)
   \<and> length valid_regions = 16 \<and> distinct valid_regions
   \<and> get_region ''na1'' = Inr ''na1'' \<and> get_region ''NA1'' = Inr ''NA1''
   \<and> get_region ''XX9'' = Inl (SystemExit 2
         [[CHR 0x22] @ ''XX9'' @ [CHR 0x22] @ '' does not exist. Enter a valid region and try again.'',
          ''Valid regions:  BR1, EUN1, EUW1, JP1, KR, LA1, LA2, NA1, OC1, PH2, RU, SG2, TH2, TR1, TW2, VN2''])"
proof -
  have accept: "(get_region region = Inr region) = (str_strip (str_upper region) \<in> set valid_regions)"
    by (rule get_region_accepts_iff)
  have reject: "(get_region region = Inl (SystemExit 2
          [[CHR 0x22] @ region @ [CHR 0x22] @ '' does not exist. Enter a valid region and try again.'',
           ''Valid regions:  '' @ join '', '' valid_regions]))
       = (str_strip (str_upper region) \<notin> set valid_regions)"
    by (simp add: get_region_def)
  from accept reject valid_regions_card get_region_na1 get_region_NA1 get_region_XX9
  show ?thesis by blast
qed

theorem get_region_accepts_exactly_valid_witness:
  "get_region '' euw1 '' = Inr '' euw1 '' \<and> str_strip (str_upper '' euw1 '') \<in> set valid_regions"
  using get_region_accepts_exactly_valid [of "'' euw1 ''"] get_region_padded by simp

section \<open>Properties of the player lookup\<close>

text \<open>
  C9. When the fetcher raises an API error whose status is not 404, \<open>get_summoner\<close>
  returns no player record, does not take the exit of the not-found path and does not
  pass the API error on: it fails at \<open>return summoner\<close> with the local never assigned.
\<close>

theorem get_summoner_unbound_local:
  assumes "by_name w region summoner_name = Inl (ApiError status_code)"
    and "status_code \<noteq> 404"
  shows "get_summoner w region summoner_name = Inl (UnboundLocalError ''summoner'')
    \<and> get_summoner w region summoner_name \<noteq> Inl (ApiError status_code)
    \<and> (\<forall>summoner. get_summoner w region summoner_name \<noteq> Inr summoner)
    \<and> (\<forall>status printed. get_summoner w region summoner_name \<noteq> Inl (SystemExit status printed))"
  using assms by (simp add: get_summoner_def)

theorem get_summoner_unbound_local_witness:
  "get_summoner rate_limited ''NA1'' ''Zenith'' = Inl (UnboundLocalError ''summoner'')"
  using get_summoner_unbound_local [of rate_limited "''NA1''" "''Zenith''" 429]
  by (simp add: rate_limited_def)

section \<open>Properties of the batch assembly\<close>

text \<open>
  C10. For an empty list of match references the loop of \<open>collect_data\<close> leaves the empty
  frame, and \<open>get_runes\<close> then fails on its first access, the column \<open>perks.styles\<close>:
  assembling a batch from no match always fails with \<open>KeyError\<close>.
\<close>

theorem collect_data_no_matches:
  "collect_loop w region puuid empty_frame [] = Inr empty_frame
   \<and> get_runes empty_frame = Inl (KeyError [S ''perks.styles''])
   \<and> collect_data w region [] puuid = Inl (KeyError [S ''perks.styles''])"
  by (simp add: collect_data_def bind_def get_runes_def getitem_def empty_frame_def)

theorem collect_data_no_matches_witness:
  "collect_data rate_limited ''NA1'' [] ''puuid-1'' = Inl (KeyError [S ''perks.styles''])"
  using collect_data_no_matches [of rate_limited "''NA1''" "''puuid-1''"] by simp

section \<open>Properties of the field normaliser\<close>

subsection \<open>What the patterns match\<close>

lemma matchhere_literal:
  "matchhere (map (\<lambda>a. Once (Lit a)) lit @ rest) s =
     (prefix lit s \<and> matchhere rest (drop (length lit) s))"
proof (induction lit arbitrary: s)
  case Nil
  show ?case by simp
next
  case (Cons a lit)
  show ?case by (cases s) (auto simp: Cons.IH)
qed

lemma matchhere_many_last: "matchhere [Many a] s"
  by (cases s) simp_all

lemma re_search_iff_suffix: "re_search p s = (\<exists>t. suffix t s \<and> matchhere p t)"
proof (induction s)
  case Nil
  show ?case by simp
next
  case (Cons c cs)
  show ?case by (auto simp: Cons.IH suffix_Cons)
qed

lemma matchhere_many_elim:
  "matchhere (Many a # rest) s \<Longrightarrow> \<exists>t. suffix t s \<and> matchhere rest t"
proof (induction s)
  case Nil
  then show ?case by auto
next
  case (Cons c cs)
  then show ?case by (auto simp: suffix_Cons)
qed

lemma matchhere_many_intro: "matchhere rest s \<Longrightarrow> matchhere (Many a # rest) s"
  by (cases s) simp_all

lemma re_search_leading_many: "re_search (Many a # rest) s = re_search rest s"
proof -
  have "(\<exists>t. suffix t s \<and> matchhere (Many a # rest) t) = (\<exists>t. suffix t s \<and> matchhere rest t)"
    using matchhere_many_elim matchhere_many_intro suffix_order.trans by blast
  then show ?thesis by (simp add: re_search_iff_suffix)
qed

lemma re_search_literal:
  "re_search (map (\<lambda>a. Once (Lit a)) lit @ [Many b]) s = sublist lit s"
proof -
  have "re_search (map (\<lambda>a. Once (Lit a)) lit @ [Many b]) s = (\<exists>t. suffix t s \<and> prefix lit t)"
    by (simp add: re_search_iff_suffix matchhere_literal matchhere_many_last)
  also have "\<dots> = sublist lit s"
    by (auto simp: sublist_def suffix_def prefix_def)
  finally show ?thesis .
qed

text \<open>
  Each pattern ends in a starred letter, which may match nothing, and \<open>re.search\<close> looks
  at every position: a label matches exactly when it contains the pattern's literal part
  without that last letter.
\<close>

lemma removal_patterns_substring:
  "re_search (re_compile ''.*challenge*'') s = sublist ''challeng'' s"
  "re_search (re_compile ''.*Ping*'') s = sublist ''Pin'' s"
  "re_search (re_compile ''.*riot*'') s = sublist ''rio'' s"
  "re_search (re_compile ''.*nexus*'') s = sublist ''nexu'' s"
  "re_search (re_compile ''.*gameEnded*'') s = sublist ''gameEnde'' s"
  using re_search_literal [of "''challeng''" "Lit CHR ''e''" s]
    re_search_literal [of "''Pin''" "Lit CHR ''g''" s]
    re_search_literal [of "''rio''" "Lit CHR ''t''" s]
    re_search_literal [of "''nexu''" "Lit CHR ''s''" s]
    re_search_literal [of "''gameEnde''" "Lit CHR ''d''" s]
  by (simp_all add: re_search_leading_many)

lemma matches_removal_pattern_substring:
  "matches_removal_pattern c =
     (sublist ''challeng'' (ensure_str c) \<or> sublist ''Pin'' (ensure_str c)
      \<or> sublist ''rio'' (ensure_str c) \<or> sublist ''nexu'' (ensure_str c)
      \<or> sublist ''gameEnde'' (ensure_str c))"
  by (simp add: matches_removal_pattern_def regexes_def list_ex_iff removal_patterns_substring
      del: re_compile.simps re_search.simps)

lemma shard_pattern_substring: "shard_pattern c = sublist ''runeShar'' (ensure_str c)"
  using re_search_literal [of "''runeShar''" "Lit CHR ''d''" "ensure_str c"]
  by (simp add: shard_pattern_def)

subsection \<open>Removal of fields\<close>

lemma labels_filter_regex: "set (labels (filter_regex d regex)) \<subseteq> set (labels d)"
  by (auto simp: labels_def filter_regex_def)

lemma filter_data_succeeds: "\<exists>d'. filter_data d regex = Inr d'"
proof -
  have "filter (\<lambda>c. c \<notin> set (labels d)) (labels (filter_regex d regex)) = []"
    using labels_filter_regex [of d regex] by (auto simp: filter_empty_conv)
  then show ?thesis by (simp add: filter_data_def drop_columns_def)
qed

lemma filter_loop_keeps: "filter_loop d rs = Inr d"
proof (induction rs)
  case Nil
  show ?case by simp
next
  case (Cons r rs)
  obtain d' where "filter_data d r = Inr d'" using filter_data_succeeds by blast
  with Cons show ?case by (simp add: bind_def)
qed

lemma remove_unnecessary_info_eq:
  "remove_unnecessary_info data =
     (if set deny_list \<subseteq> set (labels data)
      then Inr (data\<lparr>cols := filter (\<lambda>(c, cells). c \<notin> set deny_list) (cols data)\<rparr>)
      else Inl (KeyError (filter (\<lambda>c. c \<notin> set (labels data)) deny_list)))"
  by (auto simp: remove_unnecessary_info_def drop_columns_def bind_def filter_loop_keeps
      filter_empty_conv Let_def)

lemma riot_pattern_matches: "re_search (re_compile ''.*riot*'') ''riotIdName''"
  by code_simp

lemma pattern_columns_match:
  "re_search (re_compile ''.*challenge*'') ''challenges.kda''
   \<and> re_search (re_compile ''.*Ping*'') ''basicPings''
   \<and> re_search (re_compile ''.*nexus*'') ''nexusKills''
   \<and> re_search (re_compile ''.*gameEnded*'') ''gameEndedInSurrender''"
  by code_simp

lemma filter_data_riot:
  "filter_data \<lparr>nrows = 1, cols = pattern_columns\<rparr> ''.*riot*'' =
     Inr \<lparr>nrows = 1,
          cols = [(S ''kills'', [JNum 7]), (S ''challenges.kda'', [JNum 3]),
                  (S ''basicPings'', [JNum 2]), (S ''nexusKills'', [JNum 1]),
                  (S ''gameEndedInSurrender'', [JBool False])]\<rparr>"
  by code_simp

lemma remove_unnecessary_info_noisy:
  "remove_unnecessary_info noisy_frame = Inr \<lparr>nrows = 1, cols = pattern_columns\<rparr>"
  by code_simp

text \<open>
  C1. On \<open>noisy_frame\<close> the columns \<open>riotIdName\<close>, \<open>challenges.kda\<close>, \<open>basicPings\<close>,
  \<open>nexusKills\<close> and \<open>gameEndedInSurrender\<close> each match a removal pattern, and
  \<open>filter_data\<close> builds a frame without the matching ones; yet all five are columns of
  what \<open>remove_unnecessary_info\<close> returns, because the loop drops the frames
  \<open>filter_data\<close> returns.
\<close>

theorem remove_unnecessary_info_keeps_pattern_columns:
  "remove_unnecessary_info noisy_frame = Inr \<lparr>nrows = 1, cols = pattern_columns\<rparr>
   \<and> map fst pattern_columns =
       [S ''kills'', S ''riotIdName'', S ''challenges.kda'', S ''basicPings'',
        S ''nexusKills'', S ''gameEndedInSurrender'']
   \<and> re_search (re_compile ''.*riot*'') ''riotIdName''
   \<and> re_search (re_compile ''.*challenge*'') ''challenges.kda''
   \<and> re_search (re_compile ''.*Ping*'') ''basicPings''
   \<and> re_search (re_compile ''.*nexus*'') ''nexusKills''
   \<and> re_search (re_compile ''.*gameEnded*'') ''gameEndedInSurrender''"
  using remove_unnecessary_info_noisy riot_pattern_matches pattern_columns_match
  by (simp add: pattern_columns_def)

lemma kills_no_pattern:
  "S ''kills'' \<notin> set deny_list \<and> \<not> matches_removal_pattern (S ''kills'')"
  by code_simp

lemma noisy_frame_has_deny_list: "set deny_list \<subseteq> set (labels noisy_frame)"
  by code_simp

lemma noisy_frame_has_kills: "(S ''kills'', [JNum 7]) \<in> set (cols noisy_frame)"
  by code_simp

text \<open>
  C2, as the code has it. \<open>remove_unnecessary_info\<close> returns a frame exactly when every
  deny-listed name is a column of its input; when one is absent it fails with \<open>KeyError\<close>
  naming the absent ones. When it returns, every column that is not deny-listed and
  matches no removal pattern is in the result with its cells unchanged, and the number
  of rows is the same.
\<close>

theorem remove_unnecessary_info_needs_deny_list:
  "(\<exists>d'. remove_unnecessary_info data = Inr d') = (set deny_list \<subseteq> set (labels data))
   \<and> (\<not> set deny_list \<subseteq> set (labels data) \<longrightarrow>
        remove_unnecessary_info data =
          Inl (KeyError (filter (\<lambda>c. c \<notin> set (labels data)) deny_list)))
   \<and> (\<forall>d' c cells.
        remove_unnecessary_info data = Inr d' \<and> (c, cells) \<in> set (cols data)
        \<and> c \<notin> set deny_list \<and> \<not> matches_removal_pattern c
        \<longrightarrow> (c, cells) \<in> set (cols d') \<and> nrows d' = nrows data)"
  by (auto simp: remove_unnecessary_info_eq split: if_splits)

lemma frame_without_unrealKills_missing:
  "\<not> set deny_list \<subseteq> set (labels frame_without_unrealKills)
   \<and> filter (\<lambda>c. c \<notin> set (labels frame_without_unrealKills)) deny_list = [S ''unrealKills'']"
  by code_simp

theorem remove_unnecessary_info_needs_deny_list_witness:
  "set deny_list \<subseteq> set (labels noisy_frame)
   \<and> remove_unnecessary_info noisy_frame = Inr \<lparr>nrows = 1, cols = pattern_columns\<rparr>
   \<and> (S ''kills'', [JNum 7]) \<in> set (cols noisy_frame)
   \<and> S ''kills'' \<notin> set deny_list \<and> \<not> matches_removal_pattern (S ''kills'')
   \<and> (S ''kills'', [JNum 7]) \<in> set (cols \<lparr>nrows = 1, cols = pattern_columns\<rparr>)
   \<and> nrows \<lparr>nrows = 1, cols = pattern_columns\<rparr> = nrows noisy_frame
   \<and> \<not> set deny_list \<subseteq> set (labels frame_without_unrealKills)
   \<and> remove_unnecessary_info frame_without_unrealKills =
       Inl (KeyError (filter (\<lambda>c. c \<notin> set (labels frame_without_unrealKills)) deny_list))"
  using remove_unnecessary_info_needs_deny_list [of noisy_frame]
    remove_unnecessary_info_needs_deny_list [of frame_without_unrealKills]
    remove_unnecessary_info_noisy noisy_frame_has_deny_list noisy_frame_has_kills kills_no_pattern
    frame_without_unrealKills_missing
  by blast

text \<open>
  C2 as stated fails: on a frame without the deny-listed column \<open>unrealKills\<close> the
  function returns nothing and raises \<open>KeyError\<close>.
\<close>

theorem remove_unnecessary_info_missing_column:
  "remove_unnecessary_info frame_without_unrealKills = Inl (KeyError [S ''unrealKills''])"
  by code_simp

text \<open>
  C3, as the code has it. Whenever \<open>remove_unnecessary_info\<close> succeeds its result holds no
  deny-listed column, so applying it to its own result never succeeds: the second
  application fails with \<open>KeyError\<close> naming the whole deny-list.
\<close>

theorem remove_unnecessary_info_twice_fails:
  assumes "remove_unnecessary_info data = Inr d'"
  shows "set (labels d') \<inter> set deny_list = {}
    \<and> remove_unnecessary_info d' = Inl (KeyError deny_list)"
proof -
  from assms have d': "d' = data\<lparr>cols := filter (\<lambda>(c, cells). c \<notin> set deny_list) (cols data)\<rparr>"
    by (simp add: remove_unnecessary_info_eq split: if_splits)
  then have disj: "set (labels d') \<inter> set deny_list = {}"
    by (auto simp: labels_def)
  have "S ''perks.styles'' \<in> set deny_list" by (simp add: deny_list_def)
  then have "\<not> set deny_list \<subseteq> set (labels d')"
    using disj by blast
  moreover have "filter (\<lambda>c. c \<notin> set (labels d')) deny_list = deny_list"
    using disj by (auto simp: filter_id_conv)
  ultimately show ?thesis using disj by (simp add: remove_unnecessary_info_eq)
qed

theorem remove_unnecessary_info_twice_fails_witness:
  "remove_unnecessary_info noisy_frame = Inr \<lparr>nrows = 1, cols = pattern_columns\<rparr>
   \<and> set (labels \<lparr>nrows = 1, cols = pattern_columns\<rparr>) \<inter> set deny_list = {}
   \<and> remove_unnecessary_info \<lparr>nrows = 1, cols = pattern_columns\<rparr> = Inl (KeyError deny_list)"
  using remove_unnecessary_info_twice_fails [of noisy_frame "\<lparr>nrows = 1, cols = pattern_columns\<rparr>"]
    remove_unnecessary_info_noisy
  by blast

text \<open>
  C3 as stated fails: on \<open>noisy_frame\<close> one application succeeds and the second, applied
  to the result of the first, raises \<open>KeyError\<close>.
\<close>

theorem remove_unnecessary_info_not_idempotent:
  "remove_unnecessary_info noisy_frame = Inr \<lparr>nrows = 1, cols = pattern_columns\<rparr>
   \<and> bind (remove_unnecessary_info noisy_frame) remove_unnecessary_info = Inl (KeyError deny_list)"
  by code_simp

section \<open>Properties of the shard decoding\<close>

lemma map_of_shard_translations: "map_of shard_translations = spec_shard_table"
  by (rule ext) (simp add: shard_translations_def spec_shard_table_def)

lemma shard_translations_get_hashable:
  "hashable v \<Longrightarrow> shard_translations_get v = Inr (spec_shard_name v)"
  by (cases v) (simp_all add: map_of_shard_translations, simp_all add: spec_shard_table_def)

lemma map_result_all:
  "\<forall>x\<in>set xs. f x = Inr (g x) \<Longrightarrow> map_result f xs = Inr (map g xs)"
  by (induction xs) (simp_all add: bind_def)

lemma selected_iff:
  "(c, cells) \<in> set (cols d) \<Longrightarrow>
     (c \<in> set (labels (filter_regex d regex))) = re_search (re_compile regex) (ensure_str c)"
  by (force simp: labels_def filter_regex_def)

lemma decode_shards_eq:
  assumes "\<forall>(c, cells)\<in>set (cols data). shard_pattern c \<longrightarrow> list_all hashable cells"
  shows "decode_shards data =
     Inr (data\<lparr>cols := map (\<lambda>(c, cells). (c, if shard_pattern c then map spec_shard_name cells else cells))
                            (cols data)\<rparr>)"
proof -
  let ?sel = "filter_regex data ''runeShard*''"
  let ?f = "\<lambda>(c, cells). if c \<in> set (labels ?sel)
             then bind (map_result shard_translations_get cells) (\<lambda>cells'. Inr (c, cells'))
             else Inr (c, cells)"
  let ?g = "\<lambda>(c, cells). (c, if shard_pattern c then map spec_shard_name cells else cells)"
  have "\<forall>x\<in>set (cols data). ?f x = Inr (?g x)"
  proof
    fix x assume x: "x \<in> set (cols data)"
    obtain c cells where xc: "x = (c, cells)" by (cases x)
    have sel: "(c \<in> set (labels ?sel)) = shard_pattern c"
      using selected_iff [of c cells data] x xc by (simp add: shard_pattern_def)
    show "?f x = Inr (?g x)"
    proof (cases "shard_pattern c")
      case True
      with assms x xc have "list_all hashable cells" by auto
      then have "map_result shard_translations_get cells = Inr (map spec_shard_name cells)"
        by (intro map_result_all) (simp add: list_all_iff shard_translations_get_hashable)
      with True sel xc show ?thesis by (simp add: bind_def)
    next
      case False
      with sel xc show ?thesis by simp
    qed
  qed
  then have "map_result ?f (cols data) = Inr (map ?g (cols data))"
    by (rule map_result_all)
  then show ?thesis
    by (simp add: decode_shards_def applymap_columns_def bind_def Let_def)
qed

lemma shard_pattern_examples:
  "shard_pattern (S ''runeShardDefense'') \<and> shard_pattern (S ''runeShardFlex'')
   \<and> shard_pattern (S ''runeShardOffense'') \<and> \<not> shard_pattern (S ''kills'')"
  by code_simp

text \<open>
  C6, as the code has it. On every frame whose cells in the columns selected by the
  pattern \<open>runeShard*\<close> are hashable values, \<open>decode_shards\<close> succeeds; it keeps the labels,
  their order and the number of rows, replaces every cell of every selected column by
  the name the specification's table gives its id, or by null when the table has none,
  and changes no column the pattern does not select. The three rune-shard columns are
  selected; 5005 becomes \<open>Attack Speed\<close> and 9999 becomes null.
\<close>

theorem decode_shards_follows_table:
  assumes "\<forall>(c, cells)\<in>set (cols data). shard_pattern c \<longrightarrow> list_all hashable cells"
  shows "decode_shards data =
     Inr (data\<lparr>cols := map (\<lambda>(c, cells). (c, if shard_pattern c then map spec_shard_name cells else cells))
                            (cols data)\<rparr>)
   \<and> shard_pattern (S ''runeShardDefense'') \<and> shard_pattern (S ''runeShardFlex'')
   \<and> shard_pattern (S ''runeShardOffense'')
   \<and> spec_shard_name (JNum 5005) = JStr ''Attack Speed'' \<and> spec_shard_name (JNum 9999) = JNull"
  using decode_shards_eq [OF assms] shard_pattern_examples
  by (simp add: spec_shard_table_def)

theorem decode_shards_follows_table_witness:
  "decode_shards shard_frame = Inr \<lparr>nrows = 2, cols =
     [(S ''kills'', [JNum 5005, JNum 3]),
      (S ''runeShardDefense'', [JStr ''Health'', JStr ''Armor'']),
      (S ''runeShardFlex'', [JStr ''Adaptive Force'', JNull]),
      (S ''runeShardOffense'', [JStr ''Attack Speed'', JNull])]\<rparr>"
  using decode_shards_follows_table [of shard_frame] shard_pattern_examples
  by (simp add: shard_frame_def spec_shard_table_def)

text \<open>
  C6 as stated fails in its last part: a column named \<open>runeShards\<close> is none of the three
  shard columns, and \<open>decode_shards\<close> changes it.
\<close>

theorem decode_shards_changes_other_column:
  "decode_shards extra_shard_frame = Inr \<lparr>nrows = 1, cols =
     [(S ''runeShards'', [JStr ''Health'']), (S ''runeShardFlex'', [JStr ''Adaptive Force''])]\<rparr>"
  by code_simp

section \<open>Properties of the rune unpacker\<close>

subsection \<open>Frames built by \<open>json_normalize\<close>\<close>
































subsection \<open>\<open>get_runes\<close> on trees of the provider's schema\<close>



























section \<open>Properties of the assembled batch\<close>


lemma wf_list_to_arrays: "wf_frame (list_to_arrays data) \<and> nrows (list_to_arrays data) = length data"
  by (simp add: wf_frame_def list_to_arrays_def Let_def)

lemma wf_list_of_dict:
  "list_of_dict_to_arrays data = Inr F \<Longrightarrow> wf_frame F \<and> nrows F = length data"
  by (auto simp: wf_frame_def list_of_dict_to_arrays_def Let_def split: if_splits)

lemma wf_DataFrame: "DataFrame data = Inr F \<Longrightarrow> wf_frame F \<and> nrows F = length data"
proof (cases data)
  case Nil
  then show "DataFrame data = Inr F \<Longrightarrow> wf_frame F \<and> nrows F = length data"
    by (auto simp: DataFrame_def empty_frame_def wf_frame_def)
next
  case (Cons x xs)
  assume F: "DataFrame data = Inr F"
  show "wf_frame F \<and> nrows F = length data"
  proof (cases "\<exists>l. x = JList l")
    case True
    with Cons F have "F = list_to_arrays data" by (auto simp: DataFrame_def)
    then show ?thesis using wf_list_to_arrays by simp
  next
    case False
    with Cons F have "list_of_dict_to_arrays data = Inr F"
      by (cases x) (auto simp: DataFrame_def)
    then show ?thesis by (rule wf_list_of_dict)
  qed
qed



lemma json_normalize_dict_one_row: "json_normalize (JDict d) = Inr F \<Longrightarrow> nrows F = 1"
  using wf_DataFrame [of "[simple_json_normalize (JDict d)]" F] by (simp add: json_normalize_def)





















end
